theory Spec2Isabelle
  imports Complex_Main "HOL-Library.Char_ord" "HOL-Library.List_Lexorder"
begin

section \<open>Run manifests: \<^verbatim>\<open>scripts/generate_aviti_run_manifest.py\<close>\<close>

text \<open>
  Python strings are modelled as \<^typ>\<open>string\<close>; the labels, index sequences and
  table entries handled here are ASCII. Every \<^verbatim>\<open>raise\<close> and failed lookup of the
  source is a value of \<open>py_error\<close>.
\<close>

datatype py_error =
    AssertionError string
  | KeyError string
  | IndexError
  | AttributeError
  | TypeError
  | ValueError
  | UnboundLocalError

subsection \<open>\<^verbatim>\<open>revcomp\<close> (lines 70-72)\<close>

text \<open>
  \<^verbatim>\<open>str.maketrans("ACGT", "TGCA")\<close> maps the four letters and leaves every other
  character as it is.
\<close>

definition complement :: "char \<Rightarrow> char" where
  "complement c =
     (if c = CHR ''A'' then CHR ''T''
      else if c = CHR ''C'' then CHR ''G''
      else if c = CHR ''G'' then CHR ''C''
      else if c = CHR ''T'' then CHR ''A''
      else c)"

definition revcomp :: "string \<Rightarrow> string" where
  "revcomp seq = rev (map complement seq)"

subsection \<open>\<^verbatim>\<open>fit_seq\<close> (lines 285-299)\<close>

text \<open>
  \<^verbatim>\<open>seq[:k]\<close> for a Python integer \<open>k\<close>: a negative bound counts from the end.
\<close>

definition slice_to :: "'a list \<Rightarrow> int \<Rightarrow> 'a list" where
  "slice_to xs k =
     (if k < 0 then take (nat (int (length xs) + k)) xs else take (nat k) xs)"

definition fit_seq :: "string \<Rightarrow> int \<Rightarrow> string option \<Rightarrow> py_error + string" where
  "fit_seq seq len seq_extension =
     (if int (length seq) = len then Inr seq
      else if int (length seq) > len then Inr (slice_to seq len)
      else (case seq_extension of
              None \<Rightarrow> Inl (AssertionError ''Can't extend sequence without extension string.'')
            | Some ext \<Rightarrow>
                if len - int (length seq) > int (length ext)
                then Inl (AssertionError
                       ''Extension string too short to fit sequence to desired length.'')
                else Inr (seq @ slice_to ext (len - int (length seq)))))"

subsection \<open>Rendering numbers: Python's \<^verbatim>\<open>str\<close> on integers\<close>

function str_nat :: "nat \<Rightarrow> string" where
  "str_nat n =
     (if n < 10 then [''0123456789'' ! n]
      else str_nat (n div 10) @ [''0123456789'' ! (n mod 10)])"
  by pat_completeness auto
termination
  by (relation "measure (\<lambda>n. n)") auto

declare str_nat.simps [simp del]

definition str_int :: "int \<Rightarrow> string" where
  "str_int i = (if i < 0 then CHR ''-'' # str_nat (nat (- i)) else str_nat (nat i))"

text \<open>\<^verbatim>\<open>sep.join(parts)\<close>.\<close>

fun join :: "string \<Rightarrow> string list \<Rightarrow> string" where
  "join sep [] = []"
| "join sep [x] = x"
| "join sep (x # y # ys) = x @ sep @ join sep (y # ys)"

subsection \<open>\<^verbatim>\<open>Levenshtein.hamming\<close>, imported as \<^verbatim>\<open>distance\<close> (line 16)\<close>

text \<open>
  The library function is not part of the repository. It counts the positions at which
  two strings differ; strings of different lengths are padded, so every position that
  only one of them has counts as a difference. On strings of equal length this is the
  plain Hamming distance. The source expects a distance for index pairs of different
  lengths too: line 369 asks whether the lengths are equal after the distance is known.
\<close>

fun distance :: "string \<Rightarrow> string \<Rightarrow> nat" where
  "distance [] ys = length ys"
| "distance (x # xs) [] = Suc (length xs)"
| "distance (x # xs) (y # ys) = (if x = y then 0 else 1) + distance xs ys"

subsection \<open>\<^verbatim>\<open>show_match\<close> (lines 382-395)\<close>

definition show_match :: "string \<Rightarrow> string \<Rightarrow> py_error + string" where
  "show_match seq1 seq2 =
     (if length seq1 \<noteq> length seq2 then Inl (AssertionError [])
      else Inr (join [CHR 0x0A]
             [seq1,
              map (\<lambda>(seq1_base, seq2_base). if seq1_base = seq2_base then CHR ''|'' else CHR ''X'')
                (zip seq1 seq2),
              seq2]))"

text \<open>
  \<^verbatim>\<open>s.split()\<close> with no argument: the maximal runs of non-whitespace characters.
  The first argument holds the characters of the run being read.
\<close>

definition is_space :: "char \<Rightarrow> bool" where
  "is_space c \<longleftrightarrow>
     c \<in> set [CHR 0x09, CHR 0x0A, CHR 0x0B, CHR 0x0C, CHR 0x0D,
              CHR 0x1C, CHR 0x1D, CHR 0x1E, CHR 0x1F, CHR '' '']"

fun split_run :: "string \<Rightarrow> string \<Rightarrow> string list" where
  "split_run cur [] = (if cur = [] then [] else [cur])"
| "split_run cur (c # cs) =
     (if is_space c then (if cur = [] then split_run [] cs else cur # split_run [] cs)
      else split_run (cur @ [c]) cs)"

definition split_ws :: "string \<Rightarrow> string list" where
  "split_ws s = split_run [] s"

text \<open>\<^verbatim>\<open>show_match(*parts)\<close>: the call needs exactly two positional arguments.\<close>

definition show_match_star :: "string list \<Rightarrow> py_error + string" where
  "show_match_star parts =
     (case parts of [seq1, seq2] \<Rightarrow> show_match seq1 seq2 | _ \<Rightarrow> Inl TypeError)"

subsection \<open>\<^verbatim>\<open>check_pair_distance\<close> (lines 312-379)\<close>

record manifest_row =
  SampleName :: string
  Index1 :: string
  Index2 :: string
  Lane :: string
  Project :: string
  Recipe :: string

text \<open>
  The sixteen combinations of lines 325-346, in the order of the four nested loops:
  the distance, the compared sequences and the names of the conformation.
\<close>

definition flips :: "manifest_row \<Rightarrow> manifest_row \<Rightarrow> (nat \<times> string \<times> string) list" where
  "flips row row_comp =
     [(distance a1 b1 + distance a2 b2,
       a1 @ ''-'' @ a2 @ '' '' @ b1 @ ''-'' @ b2,
       n_a1 @ ''-'' @ n_a2 @ '' '' @ n_b1 @ ''-'' @ n_b2).
        (a1, n_a1) \<leftarrow> [(Index1 row, ''Index1''), (revcomp (Index1 row), ''Index1_rc'')],
        (a2, n_a2) \<leftarrow> [(Index2 row, ''Index2''), (revcomp (Index2 row), ''Index2_rc'')],
        (b1, n_b1) \<leftarrow> [(Index1 row_comp, ''Index1''), (revcomp (Index1 row_comp), ''Index1_rc'')],
        (b2, n_b2) \<leftarrow> [(Index2 row_comp, ''Index2''), (revcomp (Index2 row_comp), ''Index2_rc'')]]"

text \<open>\<^verbatim>\<open>min(xs, key=lambda x: x[0])\<close>: the first element with the least key.\<close>

fun min_from :: "(nat \<times> 'a) \<Rightarrow> (nat \<times> 'a) list \<Rightarrow> (nat \<times> 'a)" where
  "min_from m [] = m"
| "min_from m (x # xs) = min_from (if fst x < fst m then x else m) xs"

definition min_by_key :: "(nat \<times> 'a) list \<Rightarrow> py_error + (nat \<times> 'a)" where
  "min_by_key xs = (case xs of [] \<Rightarrow> Inl ValueError | x # rest \<Rightarrow> Inr (min_from x rest))"

text \<open>
  Lines 324-355: the distance, the two compared sequences and, with
  \<^verbatim>\<open>check_flips\<close>, the conformation they come from.
\<close>

definition pair_distance ::
  "manifest_row \<Rightarrow> manifest_row \<Rightarrow> bool \<Rightarrow> py_error + (nat \<times> string \<times> string)" where
  "pair_distance row row_comp check_flips =
     (if check_flips then min_by_key (flips row row_comp)
      else Inr (distance (Index1 row @ Index2 row) (Index1 row_comp @ Index2 row_comp),
                Index1 row @ ''-'' @ Index2 row @ '' '' @ Index1 row_comp @ ''-'' @ Index2 row_comp,
                []))"

text \<open>
  Lines 357-379. \<^verbatim>\<open>logging.warning\<close> appends to the list of logged warnings, which
  is passed in and returned; the second component is the outcome of the call.
\<close>

definition warning_text ::
  "manifest_row \<Rightarrow> manifest_row \<Rightarrow> bool \<Rightarrow> nat \<Rightarrow> string \<Rightarrow> string \<Rightarrow> py_error + string" where
  "warning_text row row_comp check_flips dst compared_seqs flip_conf =
     (let l1 = [''Hamming distance '' @ str_nat dst @ '' between '' @ SampleName row
                  @ '' and '' @ SampleName row_comp];
          l2 = (if check_flips
                then l1 @ [''Given: '' @ Index1 row @ ''-'' @ Index2 row @ '' <-> ''
                             @ Index1 row_comp @ ''-'' @ Index2 row_comp,
                           ''Distance: '' @ str_nat dst @ '' when flipped to '' @ flip_conf]
                else l1)
      in if length (Index1 row) + length (Index2 row)
            = length (Index1 row_comp) + length (Index2 row_comp)
         then (case show_match_star (split_ws compared_seqs) of
                 Inl e \<Rightarrow> Inl e
               | Inr m \<Rightarrow> Inr (join [CHR 0x0A] (l2 @ [m])))
         else Inr (join [CHR 0x0A] l2))"

definition check_pair_distance ::
  "manifest_row \<Rightarrow> manifest_row \<Rightarrow> bool \<Rightarrow> int \<Rightarrow> string list
     \<Rightarrow> string list \<times> (py_error + unit)" where
  "check_pair_distance row row_comp check_flips dist_warning_threshold logged =
     (case pair_distance row row_comp check_flips of
        Inl e \<Rightarrow> (logged, Inl e)
      | Inr (dst, compared_seqs, flip_conf) \<Rightarrow>
          if int dst \<le> dist_warning_threshold
          then (case warning_text row row_comp check_flips dst compared_seqs flip_conf of
                  Inl e \<Rightarrow> (logged, Inl e)
                | Inr warning \<Rightarrow>
                    (logged @ [warning],
                     if dst = 0 then Inl (AssertionError ''Identical indices detected.'')
                     else Inr ()))
          else (logged, Inr ()))"

subsection \<open>\<^verbatim>\<open>check_distances\<close> (lines 302-309)\<close>

fun check_against ::
  "manifest_row \<Rightarrow> manifest_row list \<Rightarrow> int \<Rightarrow> string list \<Rightarrow> string list \<times> (py_error + unit)" where
  "check_against row [] thr logged = (logged, Inr ())"
| "check_against row (row_comp # rest) thr logged =
     (case check_pair_distance row row_comp False thr logged of
        (logged', Inl e) \<Rightarrow> (logged', Inl e)
      | (logged', Inr _) \<Rightarrow> check_against row rest thr logged')"

fun check_distances ::
  "manifest_row list \<Rightarrow> int \<Rightarrow> string list \<Rightarrow> string list \<times> (py_error + unit)" where
  "check_distances [] thr logged = (logged, Inr ())"
| "check_distances (row # rows) thr logged =
     (case check_against row rows thr logged of
        (logged', Inl e) \<Rightarrow> (logged', Inl e)
      | (logged', Inr _) \<Rightarrow> check_distances rows thr logged')"

subsection \<open>The patterns of lines 26-29 and \<^verbatim>\<open>re.findall\<close>\<close>

text \<open>
  \<^verbatim>\<open>PAT.findall(label)[0]\<close> is the leftmost match: the start positions are tried from
  left to right, and at each one the pattern is matched greedily. \<open>search\<close> does the
  scan for a matcher that matches at the start of its argument.
\<close>

fun search :: "(string \<Rightarrow> 'a option) \<Rightarrow> string \<Rightarrow> 'a option" where
  "search match_at [] = match_at []"
| "search match_at (c # cs) =
     (case match_at (c # cs) of Some m \<Rightarrow> Some m | None \<Rightarrow> search match_at cs)"

text \<open>
  \<^verbatim>\<open>TENX_SINGLE_PAT = "SI-(?:GA|NA)-[A-H][1-9][0-2]?"\<close> and
  \<^verbatim>\<open>TENX_DUAL_PAT = "SI-(?:TT|NT|NN|TN|TS)-[A-H][1-9][0-2]?"\<close>; the pattern has no
  group, so the match is the matched text.
\<close>

definition tenx_at :: "string list \<Rightarrow> string \<Rightarrow> string option" where
  "tenx_at kinds s =
     (if length s \<ge> 8 \<and> take 3 s = ''SI-'' \<and> take 2 (drop 3 s) \<in> set kinds
         \<and> s ! 5 = CHR ''-'' \<and> s ! 6 \<in> set ''ABCDEFGH'' \<and> s ! 7 \<in> set ''123456789''
      then Some (take 8 s @ (if length s > 8 \<and> s ! 8 \<in> set ''012'' then [s ! 8] else []))
      else None)"

definition TENX_SINGLE_PAT :: "string \<Rightarrow> string option" where
  "TENX_SINGLE_PAT = search (tenx_at [''GA'', ''NA''])"

definition TENX_DUAL_PAT :: "string \<Rightarrow> string option" where
  "TENX_DUAL_PAT = search (tenx_at [''TT'', ''NT'', ''NN'', ''TN'', ''TS''])"

text \<open>\<^verbatim>\<open>SMARTSEQ_PAT = "SMARTSEQ[1-9]?-[1-9][0-9]?[A-P]"\<close>.\<close>

definition smartseq_at :: "string \<Rightarrow> string option" where
  "smartseq_at s =
     (if take 8 s = ''SMARTSEQ''
      then (let r0 = drop 8 s;
                v = (case r0 of c # _ \<Rightarrow> if c \<in> set ''123456789'' then [c] else [] | [] \<Rightarrow> []);
                r1 = drop (length v) r0
            in case r1 of
                 dash # d # r2 \<Rightarrow>
                   if dash = CHR ''-'' \<and> d \<in> set ''123456789''
                   then (case r2 of
                           [] \<Rightarrow> None
                         | e # r3 \<Rightarrow>
                             if e \<in> set ''0123456789''
                             then (case r3 of
                                     [] \<Rightarrow> None
                                   | l # _ \<Rightarrow> if l \<in> set ''ABCDEFGHIJKLMNOP''
                                              then Some (''SMARTSEQ'' @ v @ [dash, d, e, l])
                                              else None)
                             else if e \<in> set ''ABCDEFGHIJKLMNOP''
                             then Some (''SMARTSEQ'' @ v @ [dash, d, e])
                             else None)
                   else None
               | _ \<Rightarrow> None)
      else None)"

definition SMARTSEQ_PAT :: "string \<Rightarrow> string option" where
  "SMARTSEQ_PAT = search smartseq_at"

text \<open>
  \<^verbatim>\<open>IDX_PAT = "([ATCG]{4,}N*)-?([ATCG]*)"\<close> has two groups, so each element of
  \<^verbatim>\<open>IDX_PAT.findall(label)\<close> is the pair of the two groups' texts. The run of
  A, T, C, G is taken whole (everything after it can match the empty string), and the
  separator is consumed by \<^verbatim>\<open>-?\<close>, outside both groups.
\<close>

definition acgt :: "char \<Rightarrow> bool" where
  "acgt c \<longleftrightarrow> c \<in> set ''ATCG''"

definition idx_pat_at :: "string \<Rightarrow> (string \<times> string) option" where
  "idx_pat_at s =
     (let run = takeWhile acgt s;
          r1 = dropWhile acgt s;
          ns = takeWhile (\<lambda>c. c = CHR ''N'') r1;
          r2 = dropWhile (\<lambda>c. c = CHR ''N'') r1;
          r3 = (case r2 of c # cs \<Rightarrow> if c = CHR ''-'' then cs else r2 | [] \<Rightarrow> r2)
      in if length run \<ge> 4 then Some (run @ ns, takeWhile acgt r3) else None)"

definition IDX_PAT :: "string \<Rightarrow> (string \<times> string) option" where
  "IDX_PAT = search idx_pat_at"

subsection \<open>\<^verbatim>\<open>idxs_from_label\<close> (lines 75-116)\<close>

text \<open>An element of the result list is a Python string or a tuple of two strings.\<close>

datatype idx = Str string | Tuple string string

text \<open>\<^verbatim>\<open>str.upper\<close> on ASCII letters.\<close>

definition upper_char :: "char \<Rightarrow> char" where
  "upper_char c =
     (case map_of (zip ''abcdefghijklmnopqrstuvwxyz'' ''ABCDEFGHIJKLMNOPQRSTUVWXYZ'') c of
        Some u \<Rightarrow> u
      | None \<Rightarrow> c)"

definition no_commas_upper :: "string \<Rightarrow> string" where
  "no_commas_upper label = map upper_char (filter (\<lambda>c. c \<noteq> CHR '','') label)"

text \<open>
  The two lookup tables (\<^verbatim>\<open>data.Chromium_10X_indexes\<close> and the JSON file of
  \<^verbatim>\<open>SMARTSEQ3_INDEXES\<close>) are data outside the source files; they are parameters.
  In the last branch \<^verbatim>\<open>match\<close> is the pair of groups: \<^verbatim>\<open>"-" in match\<close> asks whether
  one of the two groups is the string \<^verbatim>\<open>"-"\<close>, and a tuple has no \<^verbatim>\<open>split\<close>.
\<close>

definition idxs_from_label ::
  "(string \<Rightarrow> string list option) \<Rightarrow> (string \<Rightarrow> string list list option) \<Rightarrow> string
     \<Rightarrow> py_error + idx list" where
  "idxs_from_label Chromium_10X_indexes SMARTSEQ3_INDEXES label =
     (case TENX_SINGLE_PAT label of
        Some m \<Rightarrow>
          (case Chromium_10X_indexes m of
             None \<Rightarrow> Inl (KeyError m)
           | Some tenXidxs \<Rightarrow> Inr (map Str tenXidxs))
      | None \<Rightarrow>
     (case TENX_DUAL_PAT label of
        Some m \<Rightarrow>
          (case Chromium_10X_indexes m of
             None \<Rightarrow> Inl (KeyError m)
           | Some (i7_idx # i5_idx # _) \<Rightarrow> Inr [Tuple i7_idx (revcomp i5_idx)]
           | Some _ \<Rightarrow> Inl IndexError)
      | None \<Rightarrow>
     (case SMARTSEQ_PAT label of
        Some m \<Rightarrow>
          (case SMARTSEQ3_INDEXES m of
             None \<Rightarrow> Inl (KeyError m)
           | Some [] \<Rightarrow> Inl IndexError
           | Some [i7s] \<Rightarrow> (if i7s = [] then Inr [] else Inl IndexError)
           | Some (i7s # i5s # _) \<Rightarrow>
               Inr [Tuple i7_idx (revcomp i5_idx). i7_idx \<leftarrow> i7s, i5_idx \<leftarrow> i5s])
      | None \<Rightarrow>
     (if no_commas_upper label = ''NOINDEX'' \<or> no_commas_upper label = []
      then Inl (AssertionError ''NoIndex cases not allowed.'')
      else (case IDX_PAT label of
              Some (g1, g2) \<Rightarrow>
                if g1 = ''-'' \<or> g2 = ''-'' then Inl AttributeError
                else Inr [Tuple g1 g2]
            | None \<Rightarrow>
                Inl (AssertionError
                      (''Could not parse index from '' @ [CHR 0x27] @ label @ [CHR 0x27] @ ''.'')))))))"

section \<open>Volume solving: \<^verbatim>\<open>scripts/zika_methods.py\<close>\<close>

text \<open>
  Concentrations, volumes and amounts are Python and numpy floats in the source; they
  are modelled as real numbers, so the comparisons and the clamping are exact. The data
  frame has one row per sample. Its columns are the ones named in \<^verbatim>\<open>to_fetch\<close>
  (\<^verbatim>\<open>pool\<close>: lines 57-73, \<^verbatim>\<open>norm\<close>: lines 330-351) and \<^verbatim>\<open>full_vol\<close>, which
  both functions add; after the adjustment for dead volume, \<open>vol\<close> is the accessible
  volume. A division by zero gives \<^verbatim>\<open>inf\<close> or \<^verbatim>\<open>nan\<close> in numpy and 0 here; no
  statement below rests on one.
\<close>

record sample =
  sample_name :: string
  conc :: real
  conc_units :: string
  vol :: real
  full_vol :: real
  source_fc :: string
  source_well :: string
  dest_fc :: string
  dest_well :: string
  dest_fc_name :: string
  amt_taken :: real

record pool_sample = sample +
  pool_vol_final :: real
  target_name :: string



subsection \<open>\<^verbatim>\<open>pool\<close>: one pool (lines 101-199)\<close>

text \<open>
  The log is a list of entries; an entry carries the values its f-string prints.
\<close>

datatype log_entry =
    Pooling_samples nat string
  | Target_conc_vol real real real
  | WARNING_low_conc nat "string list"
  | Pool_can_be_created real real real real
  | WARNING_depleted real
  | WARNING_conc_adjusted real
  | WARNING_vol_adjusted real
  | Pooling_OK

text \<open>
  A column of the pool's frame selected by its label, as \<^verbatim>\<open>df_pool.loc[rows, label]\<close>
  does: a label that is not a column raises \<^verbatim>\<open>KeyError\<close>.
\<close>

datatype cell = Num real | Text string

definition pool_column :: "string \<Rightarrow> (pool_sample \<Rightarrow> cell) option" where
  "pool_column label =
     map_of
       [(''sample_name'', \<lambda>r. Text (sample_name r)),
        (''conc'', \<lambda>r. Num (conc r)),
        (''conc_units'', \<lambda>r. Text (conc_units r)),
        (''vol'', \<lambda>r. Num (vol r)),
        (''source_fc'', \<lambda>r. Text (source_fc r)),
        (''source_well'', \<lambda>r. Text (source_well r)),
        (''dest_fc'', \<lambda>r. Text (dest_fc r)),
        (''dest_well'', \<lambda>r. Text (dest_well r)),
        (''dest_fc_name'', \<lambda>r. Text (dest_fc_name r)),
        (''amt_taken'', \<lambda>r. Num (amt_taken r)),
        (''pool_vol_final'', \<lambda>r. Num (pool_vol_final r)),
        (''target_name'', \<lambda>r. Text (target_name r)),
        (''full_vol'', \<lambda>r. Num (full_vol r))]
       label"

fun texts :: "cell list \<Rightarrow> py_error + string list" where
  "texts [] = Inr []"
| "texts (Text s # cs) = (case texts cs of Inl e \<Rightarrow> Inl e | Inr ss \<Rightarrow> Inr (s # ss))"
| "texts (Num x # cs) = Inl TypeError"

text \<open>
  Lines 130-135. The names of the samples below 0.01 are read from the column
  \<^verbatim>\<open>"name"\<close> before the concentrations are set and before the log entry is written.
\<close>

definition clamp_low_conc ::
  "pool_sample list \<Rightarrow> log_entry list \<Rightarrow> py_error + (pool_sample list \<times> log_entry list)" where
  "clamp_low_conc df_pool lg =
     (if filter (\<lambda>r. conc r < 0.01) df_pool \<noteq> []
      then (case pool_column ''name'' of
              None \<Rightarrow> Inl (KeyError ''name'')
            | Some col \<Rightarrow>
                (case texts (map col (filter (\<lambda>r. conc r < 0.01) df_pool)) of
                   Inl e \<Rightarrow> Inl e
                 | Inr names \<Rightarrow>
                     Inr (map (\<lambda>r. if conc r < 0.01 then r\<lparr>conc := 0.01\<rparr> else r) df_pool,
                          lg @ [WARNING_low_conc (length names) (sort names)])))
      else Inr (df_pool, lg))"

text \<open>
  Lines 158-167 (\<^verbatim>\<open># Nudge conc, if necessary\<close>) and lines 176-184
  (\<^verbatim>\<open># Nudge vol, if necessary\<close>, the branch of an even pool).
\<close>

definition nudge_conc :: "real \<Rightarrow> real \<Rightarrow> real \<Rightarrow> real" where
  "nudge_conc target_pool_conc min_conc max_conc =
     (if target_pool_conc > max_conc then max_conc
      else if target_pool_conc < min_conc then min_conc
      else target_pool_conc)"

definition nudge_vol :: "real \<Rightarrow> real \<Rightarrow> real \<Rightarrow> real \<Rightarrow> real" where
  "nudge_vol target_pool_vol min_vol_given_conc max_vol_given_conc well_max_vol =
     (if target_pool_vol < min_vol_given_conc then min_vol_given_conc
      else if target_pool_vol > max_vol_given_conc then well_max_vol
      else target_pool_vol)"

text \<open>
  Lines 137-199: the ranges, the nudged concentration and the nudged volume. The
  builtins \<^verbatim>\<open>max\<close> and \<^verbatim>\<open>min\<close> raise \<^verbatim>\<open>ValueError\<close> on an empty frame.
\<close>

record pool_plan =
  even_pool_is_possible :: bool
  pool_min_conc :: real
  pool_max_conc :: real
  pool_conc :: real
  pool_min_vol_given_conc :: real
  pool_max_vol_given_conc :: "real option"
  pool_vol :: real

definition solve_pool ::
  "real \<Rightarrow> real \<Rightarrow> real \<Rightarrow> real \<Rightarrow> pool_sample list \<Rightarrow> log_entry list
     \<Rightarrow> py_error + (pool_plan \<times> log_entry list)" where
  "solve_pool zika_min_vol well_max_vol target_pool_conc target_pool_vol df_pool lg =
     (case df_pool of
        [] \<Rightarrow> Inl ValueError
      | r0 # rs \<Rightarrow>
          (let min_amount = map (\<lambda>r. zika_min_vol * conc r) df_pool;
               max_amount = map (\<lambda>r. vol r * conc r) df_pool;
               highest_min_amount = fold max (tl min_amount) (hd min_amount);
               lowest_max_amount = fold min (tl max_amount) (hd max_amount);
               even = (highest_min_amount < lowest_max_amount);
               n = real (length df_pool);
               pool_min_amt = highest_min_amount * n;
               pool_min_sample_vol = sum_list (map (\<lambda>r. highest_min_amount / conc r) df_pool);
               min_conc = pool_min_amt / well_max_vol;
               max_conc = pool_min_amt / pool_min_sample_vol;
               lg1 = lg @ [Pool_can_be_created min_conc max_conc pool_min_sample_vol well_max_vol];
               p_conc = nudge_conc target_pool_conc min_conc max_conc;
               min_vol_given_conc = min (pool_min_amt / p_conc) well_max_vol;
               pool_max_amt = lowest_max_amount * n;
               max_vol_given_conc = min (pool_max_amt / p_conc) well_max_vol;
               p_vol = (if even
                        then nudge_vol target_pool_vol min_vol_given_conc max_vol_given_conc
                               well_max_vol
                        else min_vol_given_conc);
               lg2 = (if even then lg1
                      else lg1 @ [WARNING_depleted (fold max (map conc rs) (conc r0))]);
               lg3 = (if target_pool_conc \<noteq> p_conc then lg2 @ [WARNING_conc_adjusted p_conc]
                      else lg2);
               lg4 = (if target_pool_vol \<noteq> p_vol then lg3 @ [WARNING_vol_adjusted p_vol]
                      else lg3);
               lg5 = (if target_pool_conc = p_conc \<and> target_pool_vol = p_vol
                      then lg4 @ [Pooling_OK] else lg4)
           in Inr (\<lparr>even_pool_is_possible = even,
                     pool_min_conc = min_conc,
                     pool_max_conc = max_conc,
                     pool_conc = p_conc,
                     pool_min_vol_given_conc = min_vol_given_conc,
                     pool_max_vol_given_conc = (if even then Some max_vol_given_conc else None),
                     pool_vol = p_vol\<rparr>,
                   lg5)))"

text \<open>
  Lines 101-199 for one pool: \<open>pool_conc_udf\<close> is the pool's UDF
  \<^verbatim>\<open>"Pool Conc. (nM)"\<close>, \<open>None\<close> where the lookup raises \<^verbatim>\<open>KeyError\<close>. The frame
  \<open>df_all\<close> has had the dead volume deducted.
\<close>

definition replace_commas :: "string \<Rightarrow> string" where
  "replace_commas s = map (\<lambda>c. if c = CHR '','' then CHR '';'' else c) s"

definition pool_one ::
  "real \<Rightarrow> real \<Rightarrow> real option \<Rightarrow> string \<Rightarrow> pool_sample list \<Rightarrow> log_entry list
     \<Rightarrow> py_error + (pool_plan \<times> log_entry list)" where
  "pool_one zika_min_vol well_max_vol pool_conc_udf pool_name df_all lg =
     (case filter (\<lambda>r. target_name r = replace_commas pool_name) df_all of
        [] \<Rightarrow> Inl IndexError
      | r0 # rs \<Rightarrow>
          (let df_pool = r0 # rs;
               target_pool_vol = pool_vol_final r0;
               n = real (length df_pool);
               target_pool_conc = (case pool_conc_udf of
                                     Some c \<Rightarrow> c
                                   | None \<Rightarrow> amt_taken r0 * n / target_pool_vol);
               target_amount = (case pool_conc_udf of
                                  Some c \<Rightarrow> c * target_pool_vol / n
                                | None \<Rightarrow> amt_taken r0)
           in if \<not> (0 < target_pool_vol \<and> target_pool_vol \<le> well_max_vol)
              then Inl (AssertionError ''The target pool volume must be >0'')
              else if \<not> target_amount > 0
              then Inl (AssertionError ''The target concentratinon of the pool must be >0'')
              else (case clamp_low_conc df_pool
                           (lg @ [Pooling_samples (length df_pool) (replace_commas pool_name),
                                  Target_conc_vol target_pool_conc target_amount target_pool_vol]) of
                      Inl e \<Rightarrow> Inl e
                    | Inr (df_pool', lg') \<Rightarrow>
                        solve_pool zika_min_vol well_max_vol target_pool_conc target_pool_vol
                          df_pool' lg')))"

subsection \<open>\<^verbatim>\<open>norm\<close>: the cases of lines 376-439\<close>








section \<open>Worklists: \<^verbatim>\<open>scripts/zika_utils.py\<close>\<close>

subsection \<open>\<^verbatim>\<open>write_worklist\<close> (lines 360-507)\<close>

text \<open>
  A row of the formatted frame that \<^verbatim>\<open>format_worklist\<close> hands over: plate names and
  wells, deck positions, row and column coordinates (strings, from
  \<^verbatim>\<open>well2rowcol\<close>) and the transfer volume in whole nanolitres.
\<close>

record wl_row =
  src_name :: string
  src_well :: string
  dst_name :: string
  dst_well :: string
  src_type :: string
  transfer_vol :: int
  src_pos :: int
  dst_pos :: int
  src_row :: string
  src_col :: string
  dst_row :: string
  dst_col :: string

text \<open>Lines 375-378: commas become semicolons in every column of strings.\<close>

definition semicolons :: "wl_row \<Rightarrow> wl_row" where
  "semicolons r =
     r\<lparr>src_name := replace_commas (src_name r), src_well := replace_commas (src_well r),
       dst_name := replace_commas (dst_name r), dst_well := replace_commas (dst_well r),
       src_type := replace_commas (src_type r),
       src_row := replace_commas (src_row r), src_col := replace_commas (src_col r),
       dst_row := replace_commas (dst_row r), dst_col := replace_commas (dst_col r)\<rparr>"

text \<open>
  Lines 384-404: the column \<^verbatim>\<open>transfer_type\<close>. \<^verbatim>\<open>df.shift(-1)\<close> pairs each row
  with the next one; the last row is paired with missing values, for which every
  comparison but \<^verbatim>\<open>!=\<close> is false, so it stays \<^verbatim>\<open>COPY\<close>.
\<close>

fun transfer_types :: "bool \<Rightarrow> wl_row list \<Rightarrow> string list" where
  "transfer_types multi_aspirate [] = []"
| "transfer_types multi_aspirate [r] = [''COPY'']"
| "transfer_types multi_aspirate (r # nxt # rest) =
     (if multi_aspirate
         \<and> dst_pos r = dst_pos nxt
         \<and> dst_well r = dst_well nxt
         \<and> src_name r = ''buffer_plate''
         \<and> src_name nxt \<noteq> ''buffer_plate''
         \<and> transfer_vol r + transfer_vol nxt \<le> 5000
      then ''MULTI_ASPIRATE'' else ''COPY'')
     # transfer_types multi_aspirate (nxt # rest)"

text \<open>
  Lines 469-505: the line written for one row, without its final newline. The tip
  change strategy of every row is \<^verbatim>\<open>[VAR1]\<close> (line 413): \<^verbatim>\<open>keep_buffer_tips\<close> is
  left at its default \<^verbatim>\<open>None\<close>, as in the call from \<^verbatim>\<open>norm\<close>, and lines 415-443
  are skipped.
\<close>

definition transfer_line :: "string \<Rightarrow> wl_row \<Rightarrow> py_error + string" where
  "transfer_line transfer_type r =
     (if transfer_type = ''COPY''
      then Inr (join '',''
             [transfer_type, str_int (src_pos r), src_col r, src_col r, src_row r,
              str_int (dst_pos r), dst_col r, dst_row r, str_int (transfer_vol r), ''[VAR1]''])
      else if transfer_type = ''MULTI_ASPIRATE''
      then Inr (join '',''
             [transfer_type, str_int (src_pos r), src_col r, src_row r, ''1'',
              str_int (transfer_vol r)])
      else if transfer_type = ''CHANGE_PIPETTES''
      then Inr transfer_type
      else Inl (AssertionError ''No transfer type defined''))"

fun transfer_lines :: "(string \<times> wl_row) list \<Rightarrow> py_error + string list" where
  "transfer_lines [] = Inr []"
| "transfer_lines ((t, r) # rest) =
     (case transfer_line t r of
        Inl e \<Rightarrow> Inl e
      | Inr l \<Rightarrow> (case transfer_lines rest of Inl e \<Rightarrow> Inl e | Inr ls \<Rightarrow> Inr (l # ls)))"

text \<open>
  \<^verbatim>\<open>get_deck_comment\<close> (lines 510-520), without its final newline. The deck is a
  dictionary from plate names to positions, kept as the list of its items; in
  \<^verbatim>\<open>pos2plate\<close> a later item replaces an earlier one with the same position.
\<close>

definition get_deck_comment :: "(string \<times> int) list \<Rightarrow> string" where
  "get_deck_comment deck =
     ''COMMENT, Set up layout:    '' @
     join ''     ''
       (map (\<lambda>i. case map_of (rev (map (\<lambda>(plate, pos). (pos, plate)) deck)) i of
                    Some plate \<Rightarrow> filter (\<lambda>c. c \<noteq> CHR '','') plate
                  | None \<Rightarrow> ''[Empty]'')
          [1, 2, 3, 4, 5])"

text \<open>
  The lines of the written file, in order. The transfer lines are the lines of the
  loop of line 469, one for each row of the frame.
\<close>

definition worklist_rows :: "bool \<Rightarrow> wl_row list \<Rightarrow> py_error + string list" where
  "worklist_rows multi_aspirate df =
     transfer_lines (zip (transfer_types multi_aspirate (map semicolons df)) (map semicolons df))"

definition write_worklist ::
  "wl_row list \<Rightarrow> (string \<times> int) list \<Rightarrow> string \<Rightarrow> string list \<Rightarrow> bool \<Rightarrow> py_error + string list" where
  "write_worklist df deck wl_filename comments multi_aspirate =
     (case worklist_rows multi_aspirate df of
        Inl e \<Rightarrow> Inl e
      | Inr rows \<Rightarrow>
          Inr ([''worklist,'',
                (if df = [] then [] else ''[VAR1]TipChangeStrategy,always''),
                ''COMMENT, This is the worklist '' @ wl_filename]
               @ map (\<lambda>e. ''COMMENT, '' @ e) comments
               @ [get_deck_comment deck]
               @ rows
               @ [''COMMENT, Done'']))"

section \<open>Properties\<close>

subsection \<open>Reverse complement\<close>

lemma complement_involution: "complement (complement c) = c"
  by (simp add: complement_def)

lemma complement_other:
  "c \<notin> {CHR ''A'', CHR ''C'', CHR ''G'', CHR ''T''} \<Longrightarrow> complement c = c"
  by (simp add: complement_def)

lemma revcomp_nth:
  assumes "i < length s"
  shows "revcomp s ! (length s - 1 - i) = complement (s ! i)"
proof -
  have "length s - 1 - i < length s" using assms by simp
  moreover have "length s - Suc (length s - 1 - i) = i" using assms by simp
  ultimately show ?thesis
    using assms by (simp add: revcomp_def rev_nth)
qed

text \<open>
  Claim C10. \<^verbatim>\<open>revcomp\<close> is defined on every string: the result has the length of
  the input, a character outside A, C, G, T at position \<open>i\<close> reappears unchanged at the
  mirrored position, and applying \<^verbatim>\<open>revcomp\<close> twice gives the input back, for
  every string.
\<close>

theorem revcomp_total_involution:
  "length (revcomp s) = length s
   \<and> revcomp (revcomp s) = s
   \<and> (\<forall>i < length s. s ! i \<notin> {CHR ''A'', CHR ''C'', CHR ''G'', CHR ''T''}
        \<longrightarrow> revcomp s ! (length s - 1 - i) = s ! i)"
proof (intro conjI allI impI)
  show "length (revcomp s) = length s"
    by (simp add: revcomp_def)
  show "revcomp (revcomp s) = s"
    by (simp add: revcomp_def rev_map comp_def complement_involution)
next
  fix i
  assume "i < length s" and "s ! i \<notin> {CHR ''A'', CHR ''C'', CHR ''G'', CHR ''T''}"
  then show "revcomp s ! (length s - 1 - i) = s ! i"
    using revcomp_nth [of i s] complement_other [of "s ! i"] by simp
qed

theorem revcomp_total_involution_witness:
  "length (revcomp ''ANGT-x'') = 6
   \<and> revcomp (revcomp ''ANGT-x'') = ''ANGT-x''
   \<and> revcomp ''ANGT-x'' ! 4 = CHR ''N''"
proof -
  note t = revcomp_total_involution [of "''ANGT-x''"]
  from t have a: "length (revcomp ''ANGT-x'') = 6" by simp
  from t have b: "revcomp (revcomp ''ANGT-x'') = ''ANGT-x''" by blast
  from t have "1 < length ''ANGT-x'' \<longrightarrow>
      ''ANGT-x'' ! 1 \<notin> {CHR ''A'', CHR ''C'', CHR ''G'', CHR ''T''} \<longrightarrow>
      revcomp ''ANGT-x'' ! (length ''ANGT-x'' - 1 - 1) = ''ANGT-x'' ! 1"
    by blast
  then have c: "revcomp ''ANGT-x'' ! 4 = CHR ''N''" by (simp add: eval_nat_numeral)
  from a b c show ?thesis by blast
qed

subsection \<open>Index labels\<close>

text \<open>
  The last branch of \<^verbatim>\<open>idxs_from_label\<close>: neither group of a match of
  \<^verbatim>\<open>IDX_PAT\<close> is the string \<^verbatim>\<open>"-"\<close>, so the test of line 108 is never true and
  the pair of groups is appended as it is.
\<close>

lemma search_Some: "search f s = Some m \<Longrightarrow> \<exists>s'. f s' = Some m"
  by (induction s) (auto split: option.splits)

lemma idx_pat_at_groups:
  "idx_pat_at s = Some (g1, g2) \<Longrightarrow> 4 \<le> length g1 \<and> list_all acgt g2"
  by (auto simp: idx_pat_at_def Let_def list_all_iff split: if_splits dest: set_takeWhileD)

lemma IDX_PAT_groups:
  assumes "IDX_PAT label = Some (g1, g2)"
  shows "g1 \<noteq> ''-'' \<and> g2 \<noteq> ''-''"
proof -
  from assms obtain s where "idx_pat_at s = Some (g1, g2)"
    unfolding IDX_PAT_def by (blast dest: search_Some)
  from idx_pat_at_groups [OF this] show ?thesis
    by (auto simp: acgt_def)
qed

lemma idxs_from_label_generic:
  assumes "TENX_SINGLE_PAT label = None" and "TENX_DUAL_PAT label = None"
    and "SMARTSEQ_PAT label = None" and "IDX_PAT label = Some (g1, g2)"
    and "no_commas_upper label \<noteq> ''NOINDEX''" and "no_commas_upper label \<noteq> []"
  shows "idxs_from_label Chromium_10X_indexes SMARTSEQ3_INDEXES label = Inr [Tuple g1 g2]"
  using assms IDX_PAT_groups [OF assms(4)] by (simp add: idxs_from_label_def)

text \<open>
  Claim C1 says that a label matching only the generic pattern with a \<^verbatim>\<open>-\<close>
  separator resolves to the pair of the first index and the reverse complement of the
  second. The source does not do that: for the label \<^verbatim>\<open>ACGTACGT-AAAACCCC\<close> it
  returns the second index as written, \<^verbatim>\<open>AAAACCCC\<close>, and not its reverse
  complement \<^verbatim>\<open>GGGGTTTT\<close>.
\<close>

theorem idxs_from_label_dual_not_reverse_complemented:
  "idxs_from_label Chromium_10X_indexes SMARTSEQ3_INDEXES ''ACGTACGT-AAAACCCC''
     = Inr [Tuple ''ACGTACGT'' ''AAAACCCC'']
   \<and> revcomp ''AAAACCCC'' = ''GGGGTTTT''"
  by (simp add: idxs_from_label_def TENX_SINGLE_PAT_def TENX_DUAL_PAT_def SMARTSEQ_PAT_def
      IDX_PAT_def tenx_at_def smartseq_at_def idx_pat_at_def no_commas_upper_def
      upper_char_def acgt_def revcomp_def complement_def)

subsection \<open>Fitting PhiX sequences\<close>

text \<open>
  Claim C9. For a requested length between 0 and the length of the sequence,
  \<^verbatim>\<open>fit_seq\<close> returns the prefix of that size (the sequence itself when the two are
  equal); for a requested length above the length of the sequence and no extension
  string it raises instead of padding.
\<close>

theorem fit_seq_prefix_or_error:
  "(0 \<le> len \<and> len \<le> int (length seq) \<longrightarrow>
      fit_seq seq len ext = Inr (take (nat len) seq)
      \<and> length (take (nat len) seq) = nat len
      \<and> (len = int (length seq) \<longrightarrow> fit_seq seq len ext = Inr seq))
   \<and> (len > int (length seq) \<longrightarrow>
        fit_seq seq len None
          = Inl (AssertionError ''Can't extend sequence without extension string.''))"
  by (auto simp: fit_seq_def slice_to_def)

theorem fit_seq_prefix_or_error_witness:
  "fit_seq ''ATGTCGCTAG'' 8 None = Inr ''ATGTCGCT''
   \<and> fit_seq ''ATGTCGCTAG'' 10 None = Inr ''ATGTCGCTAG''
   \<and> fit_seq ''ATGTCGCTAG'' 12 None
       = Inl (AssertionError ''Can't extend sequence without extension string.'')"
  using fit_seq_prefix_or_error [of 8 "''ATGTCGCTAG''" None]
    fit_seq_prefix_or_error [of 10 "''ATGTCGCTAG''" None]
    fit_seq_prefix_or_error [of 12 "''ATGTCGCTAG''" None]
  by simp

text \<open>A negative length is not a size: the slice then counts from the end.\<close>

lemma fit_seq_negative_length: "fit_seq ''ACGT'' (- 1) None = Inr ''ACG''"
  by (simp add: fit_seq_def slice_to_def)

subsection \<open>Distances between index pairs\<close>

lemma distance_append:
  "length a = length b \<Longrightarrow> distance (a @ c) (b @ d) = distance a b + distance c d"
proof (induction a b rule: list_induct2')
  case 1 show ?case by simp
qed auto


lemma distance_zero_iff: "distance a b = 0 \<longleftrightarrow> a = b"
  by (induction a b rule: distance.induct) auto

lemma min_from_le: "fst (min_from m xs) \<le> fst m"
proof (induction xs arbitrary: m)
  case Nil show ?case by simp
next
  case (Cons x xs)
  have "fst (min_from (if fst x < fst m then x else m) xs) \<le> fst (if fst x < fst m then x else m)"
    by (rule Cons.IH)
  also have "\<dots> \<le> fst m" by simp
  finally show ?case by simp
qed


lemma flips_head:
  "\<exists>rest. flips row row_comp =
     (distance (Index1 row) (Index1 row_comp) + distance (Index2 row) (Index2 row_comp),
      Index1 row @ ''-'' @ Index2 row @ '' '' @ Index1 row_comp @ ''-'' @ Index2 row_comp,
      ''Index1-Index2 Index1-Index2'') # rest"
  by (simp add: flips_def)

text \<open>
  Claim C6. For two rows whose Index1 lengths are equal and whose Index2 lengths are
  equal, the distance \<^verbatim>\<open>check_pair_distance\<close> computes with
  \<^verbatim>\<open>check_flips=True\<close> (the first minimum over the sixteen combinations) is at
  most the distance it computes with \<^verbatim>\<open>check_flips=False\<close> (the distance of the
  concatenations Index1+Index2).
\<close>

theorem flip_distance_le_direct:
  assumes "length (Index1 row) = length (Index1 row_comp)"
    and "length (Index2 row) = length (Index2 row_comp)"
  shows "\<exists>d_flip seqs conf d_direct seqs'.
           pair_distance row row_comp True = Inr (d_flip, seqs, conf)
           \<and> pair_distance row row_comp False = Inr (d_direct, seqs', [])
           \<and> d_direct = distance (Index1 row @ Index2 row) (Index1 row_comp @ Index2 row_comp)
           \<and> d_flip \<le> d_direct"
proof -
  obtain x rest where fl: "flips row row_comp = x # rest"
    and x: "fst x = distance (Index1 row) (Index1 row_comp) + distance (Index2 row) (Index2 row_comp)"
    using flips_head [of row row_comp] by auto
  have direct: "distance (Index1 row @ Index2 row) (Index1 row_comp @ Index2 row_comp) = fst x"
    using assms(1) x by (simp add: distance_append)
  have "pair_distance row row_comp True = Inr (min_from x rest)"
    by (simp add: pair_distance_def min_by_key_def fl)
  moreover have "fst (min_from x rest) \<le> fst x" by (rule min_from_le)
  moreover obtain d s c where "min_from x rest = (d, s, c)" by (cases "min_from x rest")
  ultimately show ?thesis
    using direct by (simp add: pair_distance_def)
qed

theorem flip_distance_le_direct_witness:
  "pair_distance
      \<lparr>SampleName = ''s1'', Index1 = ''AAAA'', Index2 = ''CC'', Lane = ''1'',
       Project = ''P'', Recipe = ''0-0''\<rparr>
      \<lparr>SampleName = ''s2'', Index1 = ''TTTT'', Index2 = ''CC'', Lane = ''1'',
       Project = ''P'', Recipe = ''0-0''\<rparr> True
     = Inr (0, ''AAAA-CC AAAA-CC'', ''Index1-Index2 Index1_rc-Index2'')
   \<and> pair_distance
      \<lparr>SampleName = ''s1'', Index1 = ''AAAA'', Index2 = ''CC'', Lane = ''1'',
       Project = ''P'', Recipe = ''0-0''\<rparr>
      \<lparr>SampleName = ''s2'', Index1 = ''TTTT'', Index2 = ''CC'', Lane = ''1'',
       Project = ''P'', Recipe = ''0-0''\<rparr> False
     = Inr (4, ''AAAA-CC TTTT-CC'', [])
   \<and> (0::nat) \<le> 4"
proof -
  let ?a = "\<lparr>SampleName = ''s1'', Index1 = ''AAAA'', Index2 = ''CC'', Lane = ''1'',
       Project = ''P'', Recipe = ''0-0''\<rparr>"
  let ?b = "\<lparr>SampleName = ''s2'', Index1 = ''TTTT'', Index2 = ''CC'', Lane = ''1'',
       Project = ''P'', Recipe = ''0-0''\<rparr>"
  have h1: "length (Index1 ?a) = length (Index1 ?b)" by simp
  have h2: "length (Index2 ?a) = length (Index2 ?b)" by simp
  have t: "pair_distance ?a ?b True
             = Inr (0, ''AAAA-CC AAAA-CC'', ''Index1-Index2 Index1_rc-Index2'')"
    by (simp add: pair_distance_def min_by_key_def flips_def revcomp_def complement_def)
  have f: "pair_distance ?a ?b False = Inr (4, ''AAAA-CC TTTT-CC'', [])"
    by (simp add: pair_distance_def)
  from flip_distance_le_direct [OF h1 h2] t f show ?thesis by simp
qed













subsection \<open>Pooling\<close>

lemma clamp_low_conc_raises:
  "filter (\<lambda>r. conc r < 0.01) df_pool \<noteq> [] \<Longrightarrow>
     clamp_low_conc df_pool lg = Inl (KeyError ''name'')"
  by (simp add: clamp_low_conc_def pool_column_def)

text \<open>
  Claim C4 says that a pool with a sample below 0.01 has that concentration set to
  0.01 and a warning logged, without an error. In the source the frame has no column
  \<^verbatim>\<open>"name"\<close>, so line 132 raises \<^verbatim>\<open>KeyError\<close> before anything is set or logged:
  here for a pool of two samples, one of them at 0.005.
\<close>

theorem pool_low_conc_raises:
  "pool_one 0.5 180 (Some 5) ''pool1''
     [\<lparr>sample_name = ''P1_101'', conc = 10, conc_units = ''nM'', vol = 10, full_vol = 15,
       source_fc = ''plate1'', source_well = ''A:1'', dest_fc = ''out1'', dest_well = ''A:1'',
       dest_fc_name = ''out'', amt_taken = 0, pool_vol_final = 20, target_name = ''pool1''\<rparr>,
      \<lparr>sample_name = ''P1_102'', conc = 0.005, conc_units = ''nM'', vol = 10, full_vol = 15,
       source_fc = ''plate1'', source_well = ''B:1'', dest_fc = ''out1'', dest_well = ''A:1'',
       dest_fc_name = ''out'', amt_taken = 0, pool_vol_final = 20, target_name = ''pool1''\<rparr>]
     []
   = Inl (KeyError ''name'')"
  by (simp add: pool_one_def replace_commas_def clamp_low_conc_def pool_column_def)

lemma nudge_vol_above_max:
  "min_v \<le> target_pool_vol \<Longrightarrow> max_v < target_pool_vol \<Longrightarrow>
     nudge_vol target_pool_vol min_v max_v well_max_vol = well_max_vol"
  by (simp add: nudge_vol_def)

lemma nudge_vol_keeps_target:
  "min_v \<le> target_pool_vol \<Longrightarrow> target_pool_vol \<le> max_v \<Longrightarrow>
     nudge_vol target_pool_vol min_v max_v well_max_vol = target_pool_vol"
  by (simp add: nudge_vol_def)

lemma nudge_conc_keeps_target:
  "min_conc \<le> target_pool_conc \<Longrightarrow> target_pool_conc \<le> max_conc \<Longrightarrow>
     nudge_conc target_pool_conc min_conc max_conc = target_pool_conc"
  by (simp add: nudge_conc_def)

lemma nudge_conc_in_range:
  "min_conc \<le> max_conc \<Longrightarrow>
     min_conc \<le> nudge_conc target_pool_conc min_conc max_conc
     \<and> nudge_conc target_pool_conc min_conc max_conc \<le> max_conc"
  by (simp add: nudge_conc_def)

lemma solve_pool_even_vol:
  assumes "solve_pool zmin wmax tc tv df lg = Inr (p, lg')"
    and "even_pool_is_possible p" and "pool_max_vol_given_conc p = Some mx"
  shows "pool_vol p = nudge_vol tv (pool_min_vol_given_conc p) mx wmax"
proof (cases df)
  case Nil
  with assms(1) show ?thesis by (simp add: solve_pool_def)
next
  case (Cons r0 rs)
  with assms(1) have p: "p = fst (projr (solve_pool zmin wmax tc tv (r0 # rs) lg))" by simp
  show ?thesis
    using assms(2,3) unfolding p
    by (simp add: solve_pool_def Let_def split: if_splits)
qed

text \<open>
  Claim C3 says that for an even pool the solved volume lies between
  \<^verbatim>\<open>pool_min_vol_given_conc\<close> and \<^verbatim>\<open>pool_max_vol_given_conc\<close>. In the source a
  target volume above \<^verbatim>\<open>pool_max_vol_given_conc\<close> is replaced by
  \<^verbatim>\<open>well_max_vol\<close>: two samples of 10 nM with 10 ul accessible each, a target of
  5 nM in 100 ul and a well of 180 ul give the range 2 to 40 ul and the solved
  volume 180 ul.
\<close>

theorem pool_vol_raised_to_well_max:
  "pool_one 0.5 180 (Some 5) ''pool1''
     [\<lparr>sample_name = ''P1_101'', conc = 10, conc_units = ''nM'', vol = 10, full_vol = 15,
       source_fc = ''plate1'', source_well = ''A:1'', dest_fc = ''out1'', dest_well = ''A:1'',
       dest_fc_name = ''out'', amt_taken = 0, pool_vol_final = 100, target_name = ''pool1''\<rparr>,
      \<lparr>sample_name = ''P1_102'', conc = 10, conc_units = ''nM'', vol = 10, full_vol = 15,
       source_fc = ''plate1'', source_well = ''B:1'', dest_fc = ''out1'', dest_well = ''A:1'',
       dest_fc_name = ''out'', amt_taken = 0, pool_vol_final = 100, target_name = ''pool1''\<rparr>]
     []
   = Inr (\<lparr>even_pool_is_possible = True, pool_min_conc = 1 / 18, pool_max_conc = 10,
            pool_conc = 5, pool_min_vol_given_conc = 2, pool_max_vol_given_conc = Some 40,
            pool_vol = 180\<rparr>,
          [Pooling_samples 2 ''pool1'', Target_conc_vol 5 250 100,
           Pool_can_be_created (1 / 18) 10 1 180, WARNING_vol_adjusted 180])"
  by (simp add: pool_one_def replace_commas_def clamp_low_conc_def solve_pool_def Let_def
      nudge_conc_def nudge_vol_def)

subsection \<open>Normalization\<close>











subsection \<open>Multi-aspiration in the worklist\<close>

text \<open>
  Claim C2, as stated, fails: for a buffer transfer of 3000 nl followed by a sample
  transfer of 1000 nl to the same well, the worklist has two rows, a
  \<^verbatim>\<open>MULTI_ASPIRATE\<close> row with the 3000 nl of the buffer and a \<^verbatim>\<open>COPY\<close> row with
  the 1000 nl of the sample; no row carries the combined 4000 nl.
\<close>

theorem multi_aspirate_keeps_two_rows:
  "worklist_rows True
     [\<lparr>src_name = ''buffer_plate'', src_well = ''A:1'', dst_name = ''out'', dst_well = ''A:1'',
       src_type = ''buffer'', transfer_vol = 3000, src_pos = 2, dst_pos = 4,
       src_row = ''1'', src_col = ''1'', dst_row = ''1'', dst_col = ''1''\<rparr>,
      \<lparr>src_name = ''plate1'', src_well = ''A:3'', dst_name = ''out'', dst_well = ''A:1'',
       src_type = ''sample'', transfer_vol = 1000, src_pos = 3, dst_pos = 4,
       src_row = ''1'', src_col = ''3'', dst_row = ''1'', dst_col = ''1''\<rparr>]
   = Inr [''MULTI_ASPIRATE,2,1,1,1,3000'', ''COPY,3,3,3,1,4,1,1,1000,[VAR1]'']
   \<and> (3000::int) + 1000 \<le> 5000
   \<and> str_int (3000 + 1000) = ''4000''"
  by (simp add: worklist_rows_def semicolons_def replace_commas_def transfer_line_def
      str_int_def str_nat.simps)

lemma length_transfer_types: "length (transfer_types m df) = length df"
  by (induction m df rule: transfer_types.induct) auto

lemma transfer_types_nth:
  "Suc i < length df \<Longrightarrow>
   transfer_types m df ! i =
     (if m \<and> dst_pos (df ! i) = dst_pos (df ! Suc i)
         \<and> dst_well (df ! i) = dst_well (df ! Suc i)
         \<and> src_name (df ! i) = ''buffer_plate''
         \<and> src_name (df ! Suc i) \<noteq> ''buffer_plate''
         \<and> transfer_vol (df ! i) + transfer_vol (df ! Suc i) \<le> 5000
      then ''MULTI_ASPIRATE'' else ''COPY'')"
proof (induction m df arbitrary: i rule: transfer_types.induct)
  case (1 m)
  then show ?case by simp
next
  case (2 m r)
  then show ?case by simp
next
  case (3 m r nxt rest)
  show ?case
  proof (cases i)
    case 0
    then show ?thesis by simp
  next
    case (Suc j)
    with "3.prems" have "Suc j < length (nxt # rest)" by simp
    from "3.IH" [OF this] show ?thesis using Suc by simp
  qed
qed

lemma transfer_types_last:
  "df \<noteq> [] \<Longrightarrow> transfer_types m df ! (length df - 1) = ''COPY''"
proof (induction m df rule: transfer_types.induct)
  case (3 m r nxt rest)
  then show ?case by (simp add: nth_Cons')
qed auto

lemma transfer_types_not_buffer:
  assumes "i < length df" and "src_name (df ! i) \<noteq> ''buffer_plate''"
  shows "transfer_types m df ! i = ''COPY''"
proof (cases "Suc i < length df")
  case True
  then show ?thesis using assms(2) by (simp add: transfer_types_nth)
next
  case False
  with assms(1) have "i = length df - 1" and "df \<noteq> []" by auto
  then show ?thesis using transfer_types_last [of df m] by simp
qed

lemma transfer_types_known:
  "i < length df \<Longrightarrow> transfer_types m df ! i \<in> {''COPY'', ''MULTI_ASPIRATE''}"
proof (cases "Suc i < length df")
  case True
  then show ?thesis by (simp add: transfer_types_nth)
next
  case False
  assume "i < length df"
  with False have "i = length df - 1" and "df \<noteq> []" by auto
  then show ?thesis using transfer_types_last [of df m] by simp
qed

lemma transfer_lines_nth:
  assumes "list_all (\<lambda>(t, r). t \<in> {''COPY'', ''MULTI_ASPIRATE''}) zs"
  shows "\<exists>ls. transfer_lines zs = Inr ls \<and> length ls = length zs
           \<and> (\<forall>j < length zs. transfer_line (fst (zs ! j)) (snd (zs ! j)) = Inr (ls ! j))"
  using assms
proof (induction zs)
  case Nil
  then show ?case by simp
next
  case (Cons z zs)
  obtain t r where z: "z = (t, r)" by (cases z)
  from Cons.prems z have t: "t = ''COPY'' \<or> t = ''MULTI_ASPIRATE''"
    and rest: "list_all (\<lambda>(t, r). t \<in> {''COPY'', ''MULTI_ASPIRATE''}) zs" by auto
  from Cons.IH [OF rest] obtain ls where ls: "transfer_lines zs = Inr ls"
    "length ls = length zs"
    "\<forall>j < length zs. transfer_line (fst (zs ! j)) (snd (zs ! j)) = Inr (ls ! j)" by blast
  from t obtain l where l: "transfer_line t r = Inr l"
    by (auto simp: transfer_line_def)
  have "transfer_lines (z # zs) = Inr (l # ls)" using z l ls(1) by simp
  moreover have "length (l # ls) = length (z # zs)" using ls(2) by simp
  moreover have "\<forall>j < length (z # zs).
      transfer_line (fst ((z # zs) ! j)) (snd ((z # zs) ! j)) = Inr ((l # ls) ! j)"
  proof (intro allI impI)
    fix j assume "j < length (z # zs)"
    then show "transfer_line (fst ((z # zs) ! j)) (snd ((z # zs) ! j)) = Inr ((l # ls) ! j)"
      using z l ls(3) by (cases j) auto
  qed
  ultimately show ?case by blast
qed

lemma replace_commas_eq_imp:
  "replace_commas s = t \<Longrightarrow> CHR '';'' \<notin> set t \<Longrightarrow> s = t"
proof (induction s arbitrary: t)
  case Nil
  then show ?case by (simp add: replace_commas_def)
next
  case (Cons c s)
  then obtain d t' where t: "t = d # t'" by (auto simp: replace_commas_def)
  with Cons.prems have d: "d = (if c = CHR '','' then CHR '';'' else c)"
    and r: "replace_commas s = t'" and n: "CHR '';'' \<notin> set t'" "d \<noteq> CHR '';''"
    by (auto simp: replace_commas_def)
  from Cons.IH [OF r n(1)] d n(2) t show ?case by (auto split: if_splits)
qed

lemma buffer_plate_semicolons:
  "src_name (semicolons r) = ''buffer_plate'' \<longleftrightarrow> src_name r = ''buffer_plate''"
proof
  assume "src_name (semicolons r) = ''buffer_plate''"
  then have "replace_commas (src_name r) = ''buffer_plate''" by (simp add: semicolons_def)
  then show "src_name r = ''buffer_plate''"
    by (rule replace_commas_eq_imp) simp
next
  assume "src_name r = ''buffer_plate''"
  then show "src_name (semicolons r) = ''buffer_plate''"
    by (simp add: semicolons_def replace_commas_def)
qed

text \<open>
  Claim C2, amended. With multi-aspiration, for a buffer transfer immediately followed
  by a sample transfer to the same destination position and well with a combined volume
  of at most 5000 nl, the worklist has one row for each transfer: the buffer's row is a
  \<^verbatim>\<open>MULTI_ASPIRATE\<close> row with the buffer's own volume, and the row after it is the
  sample's \<^verbatim>\<open>COPY\<close> row with the sample's own volume.
\<close>

theorem multi_aspirate_row_then_copy_row:
  assumes "Suc i < length df"
    and "dst_pos (df ! i) = dst_pos (df ! Suc i)"
    and "dst_well (df ! i) = dst_well (df ! Suc i)"
    and "src_name (df ! i) = ''buffer_plate''"
    and "src_name (df ! Suc i) \<noteq> ''buffer_plate''"
    and "transfer_vol (df ! i) + transfer_vol (df ! Suc i) \<le> 5000"
  shows "\<exists>rows. worklist_rows True df = Inr rows \<and> length rows = length df
           \<and> rows ! i = join '',''
                 [''MULTI_ASPIRATE'', str_int (src_pos (df ! i)),
                  replace_commas (src_col (df ! i)), replace_commas (src_row (df ! i)),
                  ''1'', str_int (transfer_vol (df ! i))]
           \<and> rows ! Suc i = join '',''
                 [''COPY'', str_int (src_pos (df ! Suc i)),
                  replace_commas (src_col (df ! Suc i)), replace_commas (src_col (df ! Suc i)),
                  replace_commas (src_row (df ! Suc i)), str_int (dst_pos (df ! Suc i)),
                  replace_commas (dst_col (df ! Suc i)), replace_commas (dst_row (df ! Suc i)),
                  str_int (transfer_vol (df ! Suc i)), ''[VAR1]'']"
proof -
  let ?df = "map semicolons df"
  let ?ts = "transfer_types True ?df"
  let ?zs = "zip ?ts ?df"
  have len: "length ?zs = length df" by (simp add: length_transfer_types)
  have i: "i < length df" using assms(1) by simp
  have known: "list_all (\<lambda>(t, r). t \<in> {''COPY'', ''MULTI_ASPIRATE''}) ?zs"
    unfolding list_all_length
  proof (intro allI impI)
    fix j assume "j < length ?zs"
    then have j: "j < length ?df" by (simp add: length_transfer_types)
    from transfer_types_known [OF j, of True] j
    show "case ?zs ! j of (t, r) \<Rightarrow> t \<in> {''COPY'', ''MULTI_ASPIRATE''}"
      by (simp add: length_transfer_types)
  qed
  from transfer_lines_nth [OF known] obtain rows where rows: "transfer_lines ?zs = Inr rows"
    "length rows = length ?zs"
    "\<forall>j < length ?zs. transfer_line (fst (?zs ! j)) (snd (?zs ! j)) = Inr (rows ! j)"
    by blast
  have ti: "?ts ! i = ''MULTI_ASPIRATE''"
  proof -
    have "Suc i < length ?df" using assms(1) by simp
    from transfer_types_nth [OF this, of True] show ?thesis
      using assms i by (simp add: buffer_plate_semicolons) (simp add: semicolons_def)
  qed
  have tsi: "?ts ! Suc i = ''COPY''"
  proof (rule transfer_types_not_buffer)
    show "Suc i < length ?df" using assms(1) by simp
    show "src_name (?df ! Suc i) \<noteq> ''buffer_plate''"
      using assms(1,5) by (simp add: buffer_plate_semicolons)
  qed
  have zi: "?zs ! i = (''MULTI_ASPIRATE'', semicolons (df ! i))"
    using i ti by (simp add: length_transfer_types)
  have zsi: "?zs ! Suc i = (''COPY'', semicolons (df ! Suc i))"
    using assms(1) tsi by (simp add: length_transfer_types)
  have ri: "Inr (rows ! i) = transfer_line ''MULTI_ASPIRATE'' (semicolons (df ! i))"
    using rows(3) i len zi by (metis fst_conv snd_conv)
  have rsi: "Inr (rows ! Suc i) = transfer_line ''COPY'' (semicolons (df ! Suc i))"
    using rows(3) assms(1) len zsi by (metis fst_conv snd_conv)
  have "worklist_rows True df = Inr rows" using rows(1) by (simp add: worklist_rows_def)
  moreover have "length rows = length df" using rows(2) len by simp
  moreover have "rows ! i = join '',''
                 [''MULTI_ASPIRATE'', str_int (src_pos (df ! i)),
                  replace_commas (src_col (df ! i)), replace_commas (src_row (df ! i)),
                  ''1'', str_int (transfer_vol (df ! i))]"
    using ri by (simp add: transfer_line_def semicolons_def)
  moreover have "rows ! Suc i = join '',''
                 [''COPY'', str_int (src_pos (df ! Suc i)),
                  replace_commas (src_col (df ! Suc i)), replace_commas (src_col (df ! Suc i)),
                  replace_commas (src_row (df ! Suc i)), str_int (dst_pos (df ! Suc i)),
                  replace_commas (dst_col (df ! Suc i)), replace_commas (dst_row (df ! Suc i)),
                  str_int (transfer_vol (df ! Suc i)), ''[VAR1]'']"
    using rsi by (simp add: transfer_line_def semicolons_def)
  ultimately show ?thesis by blast
qed

theorem multi_aspirate_row_then_copy_row_witness:
  "\<exists>rows. worklist_rows True
       [\<lparr>src_name = ''plate1'', src_well = ''H:2'', dst_name = ''out'', dst_well = ''H:1'',
         src_type = ''sample'', transfer_vol = 4500, src_pos = 3, dst_pos = 4,
         src_row = ''8'', src_col = ''2'', dst_row = ''8'', dst_col = ''1''\<rparr>,
        \<lparr>src_name = ''buffer_plate'', src_well = ''B:1'', dst_name = ''out'', dst_well = ''B:2'',
         src_type = ''buffer'', transfer_vol = 1200, src_pos = 2, dst_pos = 4,
         src_row = ''2'', src_col = ''1'', dst_row = ''2'', dst_col = ''2''\<rparr>,
        \<lparr>src_name = ''plate1'', src_well = ''B:2'', dst_name = ''out'', dst_well = ''B:2'',
         src_type = ''sample'', transfer_vol = 3800, src_pos = 3, dst_pos = 4,
         src_row = ''2'', src_col = ''2'', dst_row = ''2'', dst_col = ''2''\<rparr>] = Inr rows
      \<and> length rows = 3
      \<and> rows ! 1 = ''MULTI_ASPIRATE,2,1,2,1,1200''
      \<and> rows ! 2 = ''COPY,3,2,2,2,4,2,2,3800,[VAR1]''"
proof -
  let ?df = "[\<lparr>src_name = ''plate1'', src_well = ''H:2'', dst_name = ''out'', dst_well = ''H:1'',
         src_type = ''sample'', transfer_vol = 4500, src_pos = 3, dst_pos = 4,
         src_row = ''8'', src_col = ''2'', dst_row = ''8'', dst_col = ''1''\<rparr>,
        \<lparr>src_name = ''buffer_plate'', src_well = ''B:1'', dst_name = ''out'', dst_well = ''B:2'',
         src_type = ''buffer'', transfer_vol = 1200, src_pos = 2, dst_pos = 4,
         src_row = ''2'', src_col = ''1'', dst_row = ''2'', dst_col = ''2''\<rparr>,
        \<lparr>src_name = ''plate1'', src_well = ''B:2'', dst_name = ''out'', dst_well = ''B:2'',
         src_type = ''sample'', transfer_vol = 3800, src_pos = 3, dst_pos = 4,
         src_row = ''2'', src_col = ''2'', dst_row = ''2'', dst_col = ''2''\<rparr>]"
  have h1: "Suc 1 < length ?df" by simp
  have h2: "dst_pos (?df ! 1) = dst_pos (?df ! Suc 1)" by simp
  have h3: "dst_well (?df ! 1) = dst_well (?df ! Suc 1)" by simp
  have h4: "src_name (?df ! 1) = ''buffer_plate''" by simp
  have h5: "src_name (?df ! Suc 1) \<noteq> ''buffer_plate''" by simp
  have h6: "transfer_vol (?df ! 1) + transfer_vol (?df ! Suc 1) \<le> 5000" by simp
  from multi_aspirate_row_then_copy_row [OF h1 h2 h3 h4 h5 h6]
  obtain rows where w: "worklist_rows True ?df = Inr rows" and l: "length rows = length ?df"
    and m: "rows ! 1 = join '',''
                 [''MULTI_ASPIRATE'', str_int (src_pos (?df ! 1)),
                  replace_commas (src_col (?df ! 1)), replace_commas (src_row (?df ! 1)),
                  ''1'', str_int (transfer_vol (?df ! 1))]"
    and c: "rows ! Suc 1 = join '',''
                 [''COPY'', str_int (src_pos (?df ! Suc 1)),
                  replace_commas (src_col (?df ! Suc 1)), replace_commas (src_col (?df ! Suc 1)),
                  replace_commas (src_row (?df ! Suc 1)), str_int (dst_pos (?df ! Suc 1)),
                  replace_commas (dst_col (?df ! Suc 1)), replace_commas (dst_row (?df ! Suc 1)),
                  str_int (transfer_vol (?df ! Suc 1)), ''[VAR1]'']"
    by blast
  have l': "length rows = 3" using l by simp
  have m': "rows ! 1 = ''MULTI_ASPIRATE,2,1,2,1,1200''"
    unfolding m by (simp add: replace_commas_def str_int_def str_nat.simps)
  have c': "rows ! 2 = ''COPY,3,2,2,2,4,2,2,3800,[VAR1]''"
    using c by (simp add: replace_commas_def str_int_def str_nat.simps numeral_2_eq_2)
  from w l' m' c' show ?thesis by blast
qed

end
